theory Spec2Isabelle
  imports Main "HOL-Library.Word" "HOL-Library.Signed_Division"
begin

section \<open>Machine integers, time and revisions\<close>

text \<open>
  Go's \<open>int64\<close> and \<open>uint64\<close> are 64-bit words: \<open>+\<close> and \<open>-\<close> wrap around, the
  comparisons of \<open>int64\<close> are the signed ones (\<open><s\<close>, \<open>\<le>s\<close>), and \<open>sint\<close> reads the
  two's-complement value.
\<close>

type_synonym int64 = "64 word"
type_synonym uint64 = "64 word"

text \<open>
  Go's \<open>%\<close> on \<open>int64\<close> truncates towards zero: the remainder has the sign of the
  dividend. (A zero divisor panics in Go; the only use below is guarded by
  \<open>QuantizationNanos > 0\<close>.)
\<close>

definition int64_rem :: "int64 \<Rightarrow> int64 \<Rightarrow> int64" where
  "int64_rem x y = word_of_int (sint x smod sint y)"

text \<open>
  \<open>time.Duration\<close> is an \<open>int64\<close> count of nanoseconds and \<open>time.Nanosecond\<close> is the
  duration 1. \<open>time.Time\<close> belongs to the standard library; an instant is modelled as an
  unbounded count of nanoseconds, \<open>Before\<close> as \<open><\<close> and \<open>Add\<close> as adding the signed
  value of the duration.
\<close>

type_synonym Duration = int64
type_synonym Time = int

definition Nanosecond :: Duration where
  "Nanosecond = 1"

definition Before :: "Time \<Rightarrow> Time \<Rightarrow> bool" where
  "Before t u = (t < u)"

definition Add :: "Time \<Rightarrow> Duration \<Rightarrow> Time" where
  "Add t d = t + sint d"

text \<open>
  Modelled from the spec: the declarations of \<open>datastore.Revision\<close> and
  \<open>datastore.NoRevision\<close> of package \<open>internal/datastore\<close> (a decimal number and its
  sentinel) are missing from the source files. A remote-clock revision is "a
  high-precision integer count of nanoseconds since an epoch", and "a distinguished
  \<open>NoRevision\<close> sentinel represents none computed". \<open>IntPart\<close> gives the \<open>int64\<close>
  the code computes with (the low 64 bits when the count does not fit), \<open>NewFromInt\<close>
  builds a revision from an \<open>int64\<close>.
\<close>

datatype Revision = NoRevision | Decimal int

fun IntPart :: "Revision \<Rightarrow> int64" where
  "IntPart NoRevision = 0"
| "IntPart (Decimal n) = word_of_int n"

definition NewFromInt :: "int64 \<Rightarrow> Revision" where
  "NewFromInt v = Decimal (sint v)"

section \<open>Errors\<close>

text \<open>
  Go errors are values. \<open>Errorf f e\<close> is \<open>fmt.Errorf(f, e)\<close> for a format \<open>f\<close> that ends
  in \<open>%w\<close>: it wraps \<open>e\<close>, and \<open>errors.Is\<close> and \<open>errors.As\<close> look through it.
  \<open>OtherError\<close> stands for every error of the backend, the driver and the libraries
  that the code does not tell apart.
\<close>

datatype InvalidRevisionReason = RevisionStale | RevisionInFuture

datatype error =
    ErrNoRows
  | ErrNamespaceNotFound string
  | ErrInvalidRevision Revision InvalidRevisionReason
  | Errorf string error
  | OtherError string

definition NewInvalidRevisionErr :: "Revision \<Rightarrow> InvalidRevisionReason \<Rightarrow> error" where
  "NewInvalidRevisionErr revision reason = ErrInvalidRevision revision reason"

definition NewNamespaceNotFoundErr :: "string \<Rightarrow> error" where
  "NewNamespaceNotFoundErr nsName = ErrNamespaceNotFound nsName"

fun errors_Is_ErrNoRows :: "error \<Rightarrow> bool" where
  "errors_Is_ErrNoRows ErrNoRows = True"
| "errors_Is_ErrNoRows (Errorf f e) = errors_Is_ErrNoRows e"
| "errors_Is_ErrNoRows _ = False"

fun errors_As_ErrNamespaceNotFound :: "error option \<Rightarrow> bool" where
  "errors_As_ErrNamespaceNotFound None = False"
| "errors_As_ErrNamespaceNotFound (Some (ErrNamespaceNotFound n)) = True"
| "errors_As_ErrNamespaceNotFound (Some (Errorf f e)) = errors_As_ErrNamespaceNotFound (Some e)"
| "errors_As_ErrNamespaceNotFound (Some _) = False"

section \<open>The consistency controller: \<open>RemoteClockRevisions\<close>\<close>

text \<open>
  The backend is a state of type \<open>'b\<close>, threaded through every call that reaches it.
  \<open>RemoteNowFunction\<close> reads the backend clock: it returns either an error (\<open>Inl\<close>,
  Go's \<open>err != nil\<close>, where the code never looks at the revision) or a revision
  (\<open>Inr\<close>), and the backend state after the call. A function that returns the backend
  state it was given has made no backend call.
  The functions of the two source files return Go's tuples as they are: \<open>None\<close> is a
  \<open>nil\<close> error or a \<open>nil\<close> pointer, \<open>[]\<close> a \<open>nil\<close> slice.
\<close>

type_synonym 'b RemoteNowFunction = "'b \<Rightarrow> (error + Revision) \<times> 'b"

record 'b RemoteClockRevisions =
  QuantizationNanos :: int64
  GCWindowNanos :: int64
  FollowerReadDelayNanos :: int64
  MaxRevisionStaleness :: Duration
  NowFunc :: "'b RemoteNowFunction"
  lastQuantizedRevision :: Revision
  revisionValidThrough :: Time

text \<open>
  \<open>OptimizedRevision\<close> has a pointer receiver and mutates it: the model returns the
  result pair, the controller after the call and the backend after the call.
  \<open>localNow\<close> is the value \<open>time.Now()\<close> returned at line 38. Tracing and logging do
  not touch the result or the controller and are left out.
\<close>

definition OptimizedRevision ::
  "'b RemoteClockRevisions \<Rightarrow> Time \<Rightarrow> 'b \<Rightarrow>
     (Revision \<times> error option) \<times> 'b RemoteClockRevisions \<times> 'b" where
  "OptimizedRevision rcr localNow b =
     (if Before localNow (revisionValidThrough rcr)
      then ((lastQuantizedRevision rcr, None), rcr, b)
      else
        (case NowFunc rcr b of
           (Inl err, b') \<Rightarrow> ((NoRevision, Some err), rcr, b')
         | (Inr nowHLC, b') \<Rightarrow>
             (let crdbNow = IntPart nowHLC - FollowerReadDelayNanos rcr;
                  quantized =
                    (if 0 <s QuantizationNanos rcr
                     then crdbNow - int64_rem crdbNow (QuantizationNanos rcr)
                     else crdbNow);
                  validForNanos = (quantized + QuantizationNanos rcr) - crdbNow;
                  rcr1 = rcr\<lparr>revisionValidThrough :=
                           Add (Add localNow (validForNanos * Nanosecond))
                               (MaxRevisionStaleness rcr)\<rparr>;
                  rcr2 = rcr1\<lparr>lastQuantizedRevision := NewFromInt quantized\<rparr>
              in ((lastQuantizedRevision rcr2, None), rcr2, b'))))"

text \<open>
  \<open>CheckRevision\<close> has the same pointer receiver; the model returns the error, the
  controller after the call and the backend after the call.
\<close>

definition CheckRevision ::
  "'b RemoteClockRevisions \<Rightarrow> Revision \<Rightarrow> 'b \<Rightarrow>
     error option \<times> 'b RemoteClockRevisions \<times> 'b" where
  "CheckRevision rcr revision b =
     (case NowFunc rcr b of
        (Inl err, b') \<Rightarrow> (Some err, rcr, b')
      | (Inr now, b') \<Rightarrow>
          (let nowNanos = IntPart now;
               revisionNanos = IntPart revision;
               staleRevision = revisionNanos <s (nowNanos - GCWindowNanos rcr)
           in if staleRevision
              then (Some (NewInvalidRevisionErr revision RevisionStale), rcr, b')
              else
                (let futureRevision = nowNanos <s revisionNanos
                 in if futureRevision
                    then (Some (NewInvalidRevisionErr revision RevisionInFuture), rcr, b')
                    else (None, rcr, b'))))"

text \<open>
  Lines 54 to 57 of \<open>OptimizedRevision\<close> on their own, to state what they compute:
  the quantized value for a quantization period and an effective now.
\<close>

definition quantizedAt :: "int64 \<Rightarrow> int64 \<Rightarrow> int64" where
  "quantizedAt q crdbNow = (if 0 <s q then crdbNow - int64_rem crdbNow q else crdbNow)"

text \<open>
  The spec's words for step 4, on unbounded integers: the greatest multiple of the
  quantization period that is not above the effective now.
\<close>

definition spec_quantized :: "int \<Rightarrow> int \<Rightarrow> int" where
  "spec_quantized q effectiveNow = q * (effectiveNow div q)"

text \<open>
  The order of remote-clock revisions is the order of their counts of nanoseconds.
  \<open>cacheNotAhead rcr now\<close> says that the cached revision is not above what a fetch
  of the clock reading \<open>now\<close> would compute: the cache comes from an earlier reading of
  a clock that does not go back.
\<close>

fun nanosOf :: "Revision \<Rightarrow> int" where
  "nanosOf NoRevision = 0"
| "nanosOf (Decimal n) = n"

definition cacheNotAhead :: "'b RemoteClockRevisions \<Rightarrow> Revision \<Rightarrow> bool" where
  "cacheNotAhead rcr now =
     (nanosOf (lastQuantizedRevision rcr)
        \<le> sint (quantizedAt (QuantizationNanos rcr) (IntPart now - FollowerReadDelayNanos rcr)))"

subsection \<open>Stubs for concrete runs of the controller\<close>

text \<open>
  A backend that counts the calls made to it: its state is the number of calls so far.
  \<open>countingClock t\<close> reads \<open>t\<close> nanoseconds, \<open>failingClock e\<close> fails with \<open>e\<close>.
  For \<open>backendClock\<close> the state of the backend is its clock, which each fetch reads.
  \<open>newController\<close> is a controller before its first call: Go's zero values for the
  two cache fields, the zero decimal being \<open>NoRevision\<close>.
\<close>

definition countingClock :: "int \<Rightarrow> nat RemoteNowFunction" where
  "countingClock t calls = (Inr (Decimal t), Suc calls)"

definition failingClock :: "error \<Rightarrow> nat RemoteNowFunction" where
  "failingClock e calls = (Inl e, Suc calls)"

definition backendClock :: "int RemoteNowFunction" where
  "backendClock t = (Inr (Decimal t), t)"

definition newController ::
  "int64 \<Rightarrow> int64 \<Rightarrow> int64 \<Rightarrow> Duration \<Rightarrow> 'b RemoteNowFunction \<Rightarrow>
     'b RemoteClockRevisions" where
  "newController q gc d st f =
     \<lparr>QuantizationNanos = q, GCWindowNanos = gc, FollowerReadDelayNanos = d,
      MaxRevisionStaleness = st, NowFunc = f,
      lastQuantizedRevision = NoRevision, revisionValidThrough = 0\<rparr>"

section \<open>The revisioned reader: \<open>mysqlReader\<close>\<close>

text \<open>
  Modelled from the spec: the declarations of \<open>datastore.Revision\<close> and
  \<open>datastore.NoRevision\<close> of package \<open>pkg/datastore\<close> and of
  \<open>revisions.NewForTransactionID\<close>, which \<open>reader.go\<close> uses, are missing from the
  source files. A revision of a transactional backend is "a monotonically increasing
  backend transaction identifier", next to the \<open>NoRevision\<close> sentinel.
\<close>

datatype datastore_Revision = datastore_NoRevision | TransactionIDRevision uint64

definition NewForTransactionID :: "uint64 \<Rightarrow> datastore_Revision" where
  "NewForTransactionID txID = TransactionIDRevision txID"

definition errUnableToReadConfig :: string where
  "errUnableToReadConfig = ''unable to read namespace config: %w''"

definition errUnableToListNamespaces :: string where
  "errUnableToListNamespaces = ''unable to list namespaces: %w''"

text \<open>
  The query builder is the squirrel library. A \<open>SelectBuilder\<close> is immutable, and the
  model keeps it as the term of the calls made on it: a base query and the predicates
  added by \<open>Where\<close>. \<open>Eq c v\<close> is \<open>sq.Eq{c: v}\<close> and \<open>Or ps\<close> is the slice \<open>sq.Or\<close>. The
  column names are constants of package \<open>mysql\<close> declared outside \<open>reader.go\<close>; only
  their identity matters here.
\<close>

datatype column =
    colNamespace | colObjectID | colRelation | colUsersetNamespace
  | colUsersetObjectID | colUsersetRelation | colCaveatName

datatype Sqlizer = Eq column string | Or "Sqlizer list" | Expr string

datatype SelectBuilder = BaseQuery string | Where SelectBuilder Sqlizer

text \<open>
  \<open>'w\<close> is the state of the backend, threaded through every call that reaches it:
  acquiring a transaction, running a query, closing a cursor, releasing the
  transaction.

  A \<open>*sql.Rows\<close> cursor is what iterating it gives: one entry for each row for which
  \<open>rows.Next()\<close> is true, holding what \<open>rows.Scan(&config, &txID)\<close> returns there,
  then the value of \<open>rows.Err()\<close> once \<open>Next\<close> is false, and the effect of
  \<open>rows.Close\<close>. A \<open>*sql.Tx\<close> is its two query methods;
  \<open>QueryRowContext_Scan\<close> is \<open>tx.QueryRowContext(ctx, query, args...).Scan(&config, &txID)\<close>,
  which returns \<open>sql.ErrNoRows\<close> when the query selects no row.
\<close>

type_synonym bytes = "8 word list"

record 'w Rows =
  Rows_Scan :: "(error + (bytes \<times> uint64)) list"
  Rows_Err :: "error option"
  Rows_Close :: "'w \<Rightarrow> error option \<times> 'w"

record 'w Tx =
  QueryRowContext_Scan :: "string \<Rightarrow> string list \<Rightarrow> 'w \<Rightarrow> (error + (bytes \<times> uint64)) \<times> 'w"
  QueryContext :: "string \<Rightarrow> string list \<Rightarrow> 'w \<Rightarrow> (error + 'w Rows) \<times> 'w"

type_synonym 'w txCleanupFunc = "'w \<Rightarrow> error option \<times> 'w"

type_synonym 'w txFactory = "'w \<Rightarrow> (error + ('w Tx \<times> 'w txCleanupFunc)) \<times> 'w"

text \<open>
  The fields of \<open>mysqlReader\<close> that the namespace reads use; \<open>ReadNamespaceQuery\<close>
  comes from the embedded \<open>*QueryBuilder\<close>.
\<close>

record 'w mysqlReader =
  ReadNamespaceQuery :: SelectBuilder
  txSource :: "'w txFactory"
  filterer :: "SelectBuilder \<Rightarrow> SelectBuilder"

text \<open>
  Two library functions are parameters: \<open>ToSql\<close> of the query builder, which renders a
  query and its arguments or fails, and \<open>UnmarshalVT\<close>, the codec of namespace
  definitions, which decodes a payload into a definition of type \<open>'d\<close> or fails.
\<close>

record 'd externals =
  ToSql :: "SelectBuilder \<Rightarrow> error + (string \<times> string list)"
  UnmarshalVT :: "bytes \<Rightarrow> error + 'd"

record 'd RevisionedNamespace =
  Definition :: 'd
  LastWrittenRevision :: datastore_Revision

text \<open>
  Modelled from the spec: the declaration of \<open>common.LogOnError\<close> is missing from the
  source files. A release runs "on every exit path", "with release failures logged but
  not propagated as the operation's result". A deferred call runs when its function
  returns, so the model applies it to the backend state last.
\<close>

definition LogOnError :: "('w \<Rightarrow> error option \<times> 'w) \<Rightarrow> 'w \<Rightarrow> 'w" where
  "LogOnError f w = snd (f w)"

definition loadNamespace ::
  "'d externals \<Rightarrow> string \<Rightarrow> 'w Tx \<Rightarrow> SelectBuilder \<Rightarrow> 'w \<Rightarrow>
     ('d option \<times> datastore_Revision \<times> error option) \<times> 'w" where
  "loadNamespace ext namespace tx baseQuery w =
     (case ToSql ext (Where baseQuery (Eq colNamespace namespace)) of
        Inl err \<Rightarrow> ((None, datastore_NoRevision, Some err), w)
      | Inr (query, args) \<Rightarrow>
          (case QueryRowContext_Scan tx query args w of
             (Inl err, w') \<Rightarrow>
               ((None, datastore_NoRevision,
                 Some (if errors_Is_ErrNoRows err then NewNamespaceNotFoundErr namespace else err)),
                w')
           | (Inr (config, txID), w') \<Rightarrow>
               (case UnmarshalVT ext config of
                  Inl err \<Rightarrow> ((None, datastore_NoRevision, Some err), w')
                | Inr loaded \<Rightarrow> ((Some loaded, NewForTransactionID txID, None), w'))))"

definition ReadNamespaceByName ::
  "'d externals \<Rightarrow> 'w mysqlReader \<Rightarrow> string \<Rightarrow> 'w \<Rightarrow>
     ('d option \<times> datastore_Revision \<times> error option) \<times> 'w" where
  "ReadNamespaceByName ext mr nsName w =
     (case txSource mr w of
        (Inl err, w1) \<Rightarrow>
          ((None, datastore_NoRevision, Some (Errorf errUnableToReadConfig err)), w1)
      | (Inr (tx, txCleanup), w1) \<Rightarrow>
          (case loadNamespace ext nsName tx (filterer mr (ReadNamespaceQuery mr)) w1 of
             ((loaded, version, err), w2) \<Rightarrow>
               ((if errors_As_ErrNamespaceNotFound err then (None, datastore_NoRevision, err)
                 else
                   (case err of
                      None \<Rightarrow> (loaded, version, None)
                    | Some e \<Rightarrow>
                        (None, datastore_NoRevision, Some (Errorf errUnableToReadConfig e)))),
                LogOnError txCleanup w2)))"

text \<open>
  The loop of \<open>loadAllNamespaces\<close> (lines 196 to 212) over the rows of the cursor:
  \<open>nsDefs\<close> is the slice built so far; a scan or decode error returns at once.
\<close>

fun loadAllNamespaces_loop ::
  "'d externals \<Rightarrow> (error + (bytes \<times> uint64)) list \<Rightarrow> 'd RevisionedNamespace list \<Rightarrow>
     error + 'd RevisionedNamespace list" where
  "loadAllNamespaces_loop ext [] nsDefs = Inr nsDefs"
| "loadAllNamespaces_loop ext (scanned # rest) nsDefs =
     (case scanned of
        Inl err \<Rightarrow> Inl err
      | Inr (config, txID) \<Rightarrow>
          (case UnmarshalVT ext config of
             Inl err \<Rightarrow> Inl (Errorf errUnableToReadConfig err)
           | Inr loaded \<Rightarrow>
               loadAllNamespaces_loop ext rest
                 (nsDefs @ [\<lparr>Definition = loaded,
                             LastWrittenRevision = NewForTransactionID txID\<rparr>])))"

definition loadAllNamespaces ::
  "'d externals \<Rightarrow> 'w Tx \<Rightarrow> SelectBuilder \<Rightarrow> 'w \<Rightarrow>
     ('d RevisionedNamespace list \<times> error option) \<times> 'w" where
  "loadAllNamespaces ext tx queryBuilder w =
     (case ToSql ext queryBuilder of
        Inl err \<Rightarrow> (([], Some err), w)
      | Inr (query, args) \<Rightarrow>
          (case QueryContext tx query args w of
             (Inl err, w') \<Rightarrow> (([], Some err), w')
           | (Inr rows, w') \<Rightarrow>
               ((case loadAllNamespaces_loop ext (Rows_Scan rows) [] of
                   Inl err \<Rightarrow> ([], Some err)
                 | Inr nsDefs \<Rightarrow>
                     (case Rows_Err rows of
                        Some err \<Rightarrow> ([], Some err)
                      | None \<Rightarrow> (nsDefs, None))),
                LogOnError (Rows_Close rows) w')))"

definition ListAllNamespaces ::
  "'d externals \<Rightarrow> 'w mysqlReader \<Rightarrow> 'w \<Rightarrow>
     ('d RevisionedNamespace list \<times> error option) \<times> 'w" where
  "ListAllNamespaces ext mr w =
     (case txSource mr w of
        (Inl err, w1) \<Rightarrow> (([], Some err), w1)
      | (Inr (tx, txCleanup), w1) \<Rightarrow>
          (let query = filterer mr (ReadNamespaceQuery mr)
           in case loadAllNamespaces ext tx query w1 of
                ((nsDefs, err), w2) \<Rightarrow>
                  ((case err of
                      Some e \<Rightarrow> ([], Some (Errorf errUnableToListNamespaces e))
                    | None \<Rightarrow> (nsDefs, err)),
                   LogOnError txCleanup w2)))"

definition LookupNamespacesWithNames ::
  "'d externals \<Rightarrow> 'w mysqlReader \<Rightarrow> string list \<Rightarrow> 'w \<Rightarrow>
     ('d RevisionedNamespace list \<times> error option) \<times> 'w" where
  "LookupNamespacesWithNames ext mr nsNames w =
     (if length nsNames = 0 then (([], None), w)
      else
        (case txSource mr w of
           (Inl err, w1) \<Rightarrow> (([], Some err), w1)
         | (Inr (tx, txCleanup), w1) \<Rightarrow>
             (let clause = foldl (\<lambda>clause nsName. clause @ [Eq colNamespace nsName]) [] nsNames;
                  query = filterer mr (Where (ReadNamespaceQuery mr) (Or clause))
              in case loadAllNamespaces ext tx query w1 of
                   ((nsDefs, err), w2) \<Rightarrow>
                     ((case err of
                         Some e \<Rightarrow> ([], Some (Errorf errUnableToListNamespaces e))
                       | None \<Rightarrow> (nsDefs, err)),
                      LogOnError txCleanup w2))))"

text \<open>
  To state what the loop makes of a row: \<open>decodesTo ext row ns\<close> says that the
  payload of the scanned \<open>row\<close> decodes to the definition of \<open>ns\<close> and that the
  revision of \<open>ns\<close> is the one made from the transaction identifier of the row.
\<close>

definition decodesTo :: "'d externals \<Rightarrow> bytes \<times> uint64 \<Rightarrow> 'd RevisionedNamespace \<Rightarrow> bool" where
  "decodesTo ext row ns =
     (UnmarshalVT ext (fst row) = Inr (Definition ns)
      \<and> LastWrittenRevision ns = NewForTransactionID (snd row))"

subsection \<open>Stubs for concrete runs of the reader\<close>

text \<open>
  A backend that counts the calls made to it. \<open>stubTx row rows\<close> answers every
  single-row query with \<open>row\<close> and every query with \<open>rows\<close>; \<open>stubReader\<close> hands out
  that transaction and filters its queries by one more predicate. \<open>stubExternals\<close>
  renders every query and decodes a payload to itself, failing on the empty payload.
\<close>

definition stubRows :: "(error + (bytes \<times> uint64)) list \<Rightarrow> error option \<Rightarrow> nat Rows" where
  "stubRows scans e = \<lparr>Rows_Scan = scans, Rows_Err = e, Rows_Close = (\<lambda>calls. (None, Suc calls))\<rparr>"

definition stubTx :: "error + (bytes \<times> uint64) \<Rightarrow> error + nat Rows \<Rightarrow> nat Tx" where
  "stubTx row rows =
     \<lparr>QueryRowContext_Scan = (\<lambda>query args calls. (row, Suc calls)),
      QueryContext = (\<lambda>query args calls. (rows, Suc calls))\<rparr>"

definition stubCleanup :: "nat txCleanupFunc" where
  "stubCleanup calls = (None, Suc calls)"

definition stubReader :: "nat Tx \<Rightarrow> nat mysqlReader" where
  "stubReader tx =
     \<lparr>ReadNamespaceQuery = BaseQuery ''namespace_config'',
      txSource = (\<lambda>calls. (Inr (tx, stubCleanup), Suc calls)),
      filterer = (\<lambda>original. Where original (Expr ''alive''))\<rparr>"

definition stubExternals :: "bytes externals" where
  "stubExternals =
     \<lparr>ToSql = (\<lambda>query. Inr (''SELECT'', [])),
      UnmarshalVT = (\<lambda>config. if config = [] then Inl (OtherError ''malformed'') else Inr config)\<rparr>"


section \<open>Arithmetic of \<open>int64\<close>\<close>

lemma abs_mod_bounds: "0 \<le> \<bar>k::int\<bar> mod \<bar>l\<bar> \<and> \<bar>k\<bar> mod \<bar>l\<bar> \<le> \<bar>k\<bar>"
proof (cases "l = 0")
  case True
  then show ?thesis by simp
next
  case False
  then have "0 < \<bar>l\<bar>" by simp
  then have "0 \<le> \<bar>k\<bar> mod \<bar>l\<bar>" by (rule pos_mod_sign)
  moreover have "\<bar>k\<bar> mod \<bar>l\<bar> \<le> \<bar>k\<bar>" by (rule zmod_le_nonneg_dividend) simp
  ultimately show ?thesis by simp
qed

lemma smod_int_nonneg: "0 \<le> (k::int) \<Longrightarrow> 0 \<le> k smod l \<and> k smod l \<le> k"
  using abs_mod_bounds [of k l]
  by (cases "k = 0") (simp_all add: signed_modulo_int_def)

lemma smod_int_neg: "(k::int) < 0 \<Longrightarrow> k \<le> k smod l \<and> k smod l \<le> 0"
  using abs_mod_bounds [of k l]
  by (simp add: signed_modulo_int_def)

lemma sint_int64_range: "- (2 ^ 63) \<le> sint (x::int64) \<and> sint x < 2 ^ 63"
  using sint_ge [of x] sint_lt [of x] by simp

lemma sint_word_of_int_64:
  "- (2 ^ 63) \<le> k \<Longrightarrow> k < 2 ^ 63 \<Longrightarrow> sint (word_of_int k :: int64) = k"
  by (simp add: sint_sbintrunc' signed_take_bit_int_eq_self)

lemma sint_sub_64:
  "- (2 ^ 63) \<le> sint (x::int64) - sint y \<Longrightarrow> sint x - sint y < 2 ^ 63 \<Longrightarrow>
   sint (x - y) = sint x - sint y"
  by (simp add: sint_word_diff signed_take_bit_int_eq_self)

lemma sint_int64_rem: "sint (int64_rem x y) = sint x smod sint y"
proof -
  have "- (2 ^ 63) \<le> sint x smod sint y \<and> sint x smod sint y < 2 ^ 63"
    using sint_int64_range [of x] smod_int_nonneg [of "sint x" "sint y"]
      smod_int_neg [of "sint x" "sint y"]
    by (cases "0 \<le> sint x") auto
  then show ?thesis
    by (simp add: int64_rem_def sint_word_of_int_64)
qed

lemma sint_quantizedAt:
  "sint (quantizedAt q c) = (if 0 < sint q then sint c - sint c smod sint q else sint c)"
proof (cases "0 < sint q")
  case False
  then show ?thesis by (simp add: quantizedAt_def word_sless_alt)
next
  case True
  have "- (2 ^ 63) \<le> sint c - sint c smod sint q \<and> sint c - sint c smod sint q < 2 ^ 63"
    using sint_int64_range [of c] smod_int_nonneg [of "sint c" "sint q"]
      smod_int_neg [of "sint c" "sint q"]
    by (cases "0 \<le> sint c") auto
  then have "sint (c - int64_rem c q) = sint c - sint c smod sint q"
    using sint_sub_64 [of c "int64_rem c q"] by (simp add: sint_int64_rem)
  with True show ?thesis by (simp add: quantizedAt_def word_sless_alt)
qed

lemma trunc_mono:
  assumes "0 < (p::int)" "k \<le> k'"
  shows "k - k smod p \<le> k' - k' smod p"
proof -
  have eq: "\<And>j::int. j - j smod p = sgn j * (\<bar>j\<bar> div p) * p"
    using assms(1) by (simp add: minus_smod_eq_sdiv_mult signed_divide_int_def)
  consider "0 \<le> k" | "k < 0" "0 \<le> k'" | "k' < 0" using assms(2) by linarith
  then have "sgn k * (\<bar>k\<bar> div p) \<le> sgn k' * (\<bar>k'\<bar> div p)"
  proof cases
    case 1
    then have "k div p \<le> k' div p" using assms by (simp add: zdiv_mono1)
    moreover have "0 \<le> k'" using 1 assms(2) by simp
    ultimately show ?thesis using 1
      by (cases "k = 0"; cases "k' = 0") (simp_all add: pos_imp_zdiv_nonneg_iff assms(1))
  next
    case 2
    have "0 \<le> \<bar>k\<bar> div p" using assms(1) by (simp add: pos_imp_zdiv_nonneg_iff)
    moreover have "0 \<le> \<bar>k'\<bar> div p" using assms(1) by (simp add: pos_imp_zdiv_nonneg_iff)
    ultimately show ?thesis using 2 by (cases "k' = 0") simp_all
  next
    case 3
    then have "k < 0" using assms(2) by simp
    have "(- k') div p \<le> (- k) div p" using assms by (simp add: zdiv_mono1)
    then show ?thesis using 3 \<open>k < 0\<close> by simp
  qed
  then show ?thesis using assms(1) by (simp add: eq mult_right_mono)
qed

lemma quantizedAt_mono:
  assumes "sint c \<le> sint c'"
  shows "sint (quantizedAt q c) \<le> sint (quantizedAt q c')"
  using assms trunc_mono [of "sint q" "sint c" "sint c'"]
  by (simp add: sint_quantizedAt)

lemma quantizedAt_floor:
  assumes "0 < sint q" "0 \<le> sint c"
  shows "sint (quantizedAt q c) = spec_quantized (sint q) (sint c)"
proof -
  have "sint c smod sint q = sint c mod sint q"
    using assms by (cases "sint c = 0") (simp_all add: signed_modulo_int_def)
  then show ?thesis using assms
    by (simp add: sint_quantizedAt minus_mod_eq_mult_div spec_quantized_def)
qed

lemma spec_quantized_greatest:
  assumes "0 < q"
  shows "q dvd spec_quantized q e \<and> spec_quantized q e \<le> e
         \<and> (\<forall>m. q dvd m \<and> m \<le> e \<longrightarrow> m \<le> spec_quantized q e)"
proof -
  have "q * (e div q) + e mod q = e" by simp
  moreover have "0 \<le> e mod q" using assms by simp
  ultimately have "spec_quantized q e \<le> e"
    unfolding spec_quantized_def by linarith
  moreover have "m \<le> spec_quantized q e" if "q dvd m" "m \<le> e" for m
  proof -
    from that(1) obtain j where m: "m = q * j" by (rule dvdE)
    have "m div q \<le> e div q" using that(2) assms by (simp add: zdiv_mono1)
    then have "j \<le> e div q" using assms by (simp add: m)
    then show ?thesis using assms by (simp add: m spec_quantized_def)
  qed
  ultimately show ?thesis by (simp add: spec_quantized_def)
qed

lemmas run_defs = OptimizedRevision_def CheckRevision_def newController_def countingClock_def
  failingClock_def backendClock_def Before_def Add_def Nanosecond_def int64_rem_def NewFromInt_def
  NewInvalidRevisionErr_def signed_modulo_int_def word_sless_alt


section \<open>The three exits of \<open>OptimizedRevision\<close>\<close>

lemma OptimizedRevision_hit:
  "Before localNow (revisionValidThrough rcr) \<Longrightarrow>
   OptimizedRevision rcr localNow b = ((lastQuantizedRevision rcr, None), rcr, b)"
  by (simp add: OptimizedRevision_def)

lemma OptimizedRevision_fetch_error:
  "\<not> Before localNow (revisionValidThrough rcr) \<Longrightarrow> NowFunc rcr b = (Inl err, b') \<Longrightarrow>
   OptimizedRevision rcr localNow b = ((NoRevision, Some err), rcr, b')"
  by (simp add: OptimizedRevision_def)

lemma OptimizedRevision_miss:
  "\<not> Before localNow (revisionValidThrough rcr) \<Longrightarrow> NowFunc rcr b = (Inr nowHLC, b') \<Longrightarrow>
   OptimizedRevision rcr localNow b =
     ((NewFromInt (quantizedAt (QuantizationNanos rcr) (IntPart nowHLC - FollowerReadDelayNanos rcr)), None),
      rcr\<lparr>revisionValidThrough :=
            localNow
            + sint ((quantizedAt (QuantizationNanos rcr) (IntPart nowHLC - FollowerReadDelayNanos rcr)
                      + QuantizationNanos rcr)
                    - (IntPart nowHLC - FollowerReadDelayNanos rcr))
            + sint (MaxRevisionStaleness rcr),
          lastQuantizedRevision :=
            NewFromInt (quantizedAt (QuantizationNanos rcr) (IntPart nowHLC - FollowerReadDelayNanos rcr))\<rparr>,
      b')"
  by (simp add: OptimizedRevision_def quantizedAt_def Let_def Add_def Nanosecond_def)

lemma sint_IntPart_Decimal:
  "- (2 ^ 63) \<le> n \<Longrightarrow> n < 2 ^ 63 \<Longrightarrow> sint (IntPart (Decimal n)) = n"
  by (simp add: sint_word_of_int_64)

lemma IntPart_NewFromInt: "IntPart (NewFromInt v) = v"
  by (simp add: NewFromInt_def)

lemma nanosOf_NewFromInt: "nanosOf (NewFromInt v) = sint v"
  by (simp add: NewFromInt_def)

section \<open>Properties of the consistency controller\<close>

subsection \<open>Quantization\<close>

text \<open>
  What lines 53 to 57 compute where the spec's floor and Go's \<open>%\<close> agree: for a
  positive period and an effective now that is not negative, the revision of a cache
  miss is the greatest multiple of the period not above the effective now; for the
  period 0 it is the effective now; and the spec's example gives 9000 (with the
  deadline 50 ns plus the staleness later, and one call of the clock).
\<close>

lemma OptimizedRevision_floor_nonneg:
  assumes "\<not> Before localNow (revisionValidThrough rcr)"
    and "NowFunc rcr b = (Inr nowHLC, b')"
    and "0 < sint (QuantizationNanos rcr)"
    and "0 \<le> sint (IntPart nowHLC - FollowerReadDelayNanos rcr)"
  shows "fst (OptimizedRevision rcr localNow b) =
           (Decimal (spec_quantized (sint (QuantizationNanos rcr))
                       (sint (IntPart nowHLC - FollowerReadDelayNanos rcr))), None)"
  using assms
  by (simp add: OptimizedRevision_miss NewFromInt_def quantizedAt_floor)

lemma OptimizedRevision_not_quantized:
  assumes "\<not> Before localNow (revisionValidThrough rcr)"
    and "NowFunc rcr b = (Inr nowHLC, b')"
    and "QuantizationNanos rcr = 0"
  shows "fst (OptimizedRevision rcr localNow b) =
           (NewFromInt (IntPart nowHLC - FollowerReadDelayNanos rcr), None)"
  using assms
  by (simp add: OptimizedRevision_miss quantizedAt_def)

lemma OptimizedRevision_example_9000:
  "OptimizedRevision (newController 1000 0 100 50000000 (countingClock 10050)) 0 0 =
     ((Decimal 9000, None),
      (newController 1000 0 100 50000000 (countingClock 10050))
        \<lparr>lastQuantizedRevision := Decimal 9000, revisionValidThrough := 50000050\<rparr>,
      1)"
  by (simp add: run_defs)

text \<open>
  Claim C1: on every cache miss with a quantization period \<open>Q > 0\<close>, the revision
  returned is the greatest multiple of \<open>Q\<close> that is not above the effective now, for
  every effective now. The code rounds towards zero instead: with \<open>Q = 1000\<close>, a follower
  delay of 100 and a clock reading of 50 the effective now is \<open>-50\<close>, the greatest
  multiple of 1000 not above it is \<open>-1000\<close>, and \<open>OptimizedRevision\<close> returns 0, a
  revision later than the effective now.
\<close>

theorem OptimizedRevision_rounds_up_below_zero:
  "fst (OptimizedRevision (newController 1000 0 100 0 (countingClock 50)) 0 0)
     = (Decimal 0, None)
   \<and> spec_quantized 1000 (50 - 100) = - 1000"
  by (simp add: run_defs spec_quantized_def)

subsection \<open>Checking a revision\<close>

text \<open>
  Claim C2, as amended: \<open>CheckRevision\<close> propagates the error of a failed clock fetch;
  otherwise it compares the \<open>int64\<close> integer parts of the revision and of \<open>now\<close>, and
  for a garbage-collection window that is not negative and a \<open>now - gcWindow\<close> that
  does not wrap below the least \<open>int64\<close> it succeeds exactly when
  \<open>now - gcWindow \<le> revision \<le> now\<close>, fails with \<open>RevisionStale\<close> exactly when
  \<open>revision < now - gcWindow\<close> (strictly, so a revision exactly \<open>gcWindow\<close> old
  succeeds) and fails with \<open>RevisionInFuture\<close> exactly when \<open>revision > now\<close>, all three
  read on the integer parts. For a revision and a clock reading that fit in an
  \<open>int64\<close> the integer parts are the values themselves (\<open>sint_IntPart_Decimal\<close>), and
  the subtraction does not wrap for any clock reading that is not negative.
\<close>

theorem CheckRevision_window:
  "(NowFunc rcr b = (Inl err, b') \<longrightarrow> fst (CheckRevision rcr revision b) = Some err)
   \<and> (NowFunc rcr b = (Inr now, b') \<and> 0 \<le> sint (GCWindowNanos rcr)
        \<and> - (2 ^ 63) \<le> sint (IntPart now) - sint (GCWindowNanos rcr) \<longrightarrow>
        (fst (CheckRevision rcr revision b) = None
           \<longleftrightarrow> sint (IntPart now) - sint (GCWindowNanos rcr) \<le> sint (IntPart revision)
               \<and> sint (IntPart revision) \<le> sint (IntPart now))
        \<and> (fst (CheckRevision rcr revision b) = Some (ErrInvalidRevision revision RevisionStale)
           \<longleftrightarrow> sint (IntPart revision) < sint (IntPart now) - sint (GCWindowNanos rcr))
        \<and> (fst (CheckRevision rcr revision b) = Some (ErrInvalidRevision revision RevisionInFuture)
           \<longleftrightarrow> sint (IntPart now) < sint (IntPart revision)))"
proof -
  have window: "sint (IntPart now - GCWindowNanos rcr) = sint (IntPart now) - sint (GCWindowNanos rcr)"
    if "0 \<le> sint (GCWindowNanos rcr)"
      and "- (2 ^ 63) \<le> sint (IntPart now) - sint (GCWindowNanos rcr)"
    using that sint_int64_range [of "IntPart now"]
    by (intro sint_sub_64) auto
  show ?thesis
    by (auto simp add: CheckRevision_def Let_def NewInvalidRevisionErr_def word_sless_alt window)
qed

theorem CheckRevision_window_witness:
  "fst (CheckRevision (newController 0 5000 0 0 (countingClock 10000)) (Decimal 4999) 0)
     = Some (ErrInvalidRevision (Decimal 4999) RevisionStale)
   \<and> fst (CheckRevision (newController 0 5000 0 0 (countingClock 10000)) (Decimal 5000) 0) = None
   \<and> fst (CheckRevision (newController 0 5000 0 0 (countingClock 10000)) (Decimal 10000) 0) = None
   \<and> fst (CheckRevision (newController 0 5000 0 0 (countingClock 10000)) (Decimal 10001) 0)
     = Some (ErrInvalidRevision (Decimal 10001) RevisionInFuture)
   \<and> fst (CheckRevision (newController 0 5000 0 0 (failingClock (OtherError ''down''))) (Decimal 5000) 0)
     = Some (OtherError ''down'')"
proof -
  let ?rcr = "newController 0 5000 0 0 (countingClock 10000)"
  let ?down = "newController 0 5000 0 0 (failingClock (OtherError ''down''))"
  have clock: "NowFunc ?rcr 0 = (Inr (Decimal 10000), 1)"
    by (simp add: newController_def countingClock_def)
  have gc: "0 \<le> sint (GCWindowNanos ?rcr)"
    by (simp add: newController_def)
  have nowrap: "- (2 ^ 63) \<le> sint (IntPart (Decimal 10000)) - sint (GCWindowNanos ?rcr)"
    by (simp add: newController_def)
  have down: "NowFunc ?down 0 = (Inl (OtherError ''down''), 1)"
    by (simp add: newController_def failingClock_def)
  note w = CheckRevision_window [where rcr = ?rcr and b = 0 and now = "Decimal 10000" and b' = 1,
      THEN conjunct2, rule_format,
      OF conjI [OF clock conjI [OF gc nowrap]]]
  have "fst (CheckRevision ?rcr (Decimal 4999) 0) = Some (ErrInvalidRevision (Decimal 4999) RevisionStale)"
    using w [where revision = "Decimal 4999"] by (simp add: newController_def)
  moreover have "fst (CheckRevision ?rcr (Decimal 5000) 0) = None"
    using w [where revision = "Decimal 5000"] by (simp add: newController_def)
  moreover have "fst (CheckRevision ?rcr (Decimal 10000) 0) = None"
    using w [where revision = "Decimal 10000"] by (simp add: newController_def)
  moreover have "fst (CheckRevision ?rcr (Decimal 10001) 0) = Some (ErrInvalidRevision (Decimal 10001) RevisionInFuture)"
    using w [where revision = "Decimal 10001"] by (simp add: newController_def)
  moreover have "fst (CheckRevision ?down (Decimal 5000) 0) = Some (OtherError ''down'')"
    using CheckRevision_window [where rcr = ?down and b = 0 and err = "OtherError ''down''"
        and b' = 1 and revision = "Decimal 5000", THEN conjunct1] down
    by simp
  ultimately show ?thesis by simp
qed


text \<open>
  Claim C2 as the spec words it, on the revisions themselves and for every input, does
  not hold of the code. With \<open>now = 10000\<close> and \<open>gcWindow = 5000\<close>, the revision
  \<open>2^64 + 7000\<close> is above \<open>now\<close> and \<open>CheckRevision\<close> succeeds, since its integer part
  is 7000. With a clock reading of \<open>-2^63 + 10\<close> the subtraction wraps, and the revision
  0, which is above \<open>now\<close> and not below \<open>now - gcWindow\<close>, is reported stale.
\<close>

theorem CheckRevision_window_counterexample:
  "fst (CheckRevision (newController 0 5000 0 0 (countingClock 10000))
          (Decimal 18446744073709558616) 0) = None
   \<and> 10000 < nanosOf (Decimal 18446744073709558616)
   \<and> fst (CheckRevision (newController 0 5000 0 0 (countingClock (- 9223372036854775798)))
          (Decimal 0) 0) = Some (ErrInvalidRevision (Decimal 0) RevisionStale)
   \<and> - 9223372036854775798 < nanosOf (Decimal 0)
   \<and> - 9223372036854775798 - 5000 \<le> nanosOf (Decimal 0)"
  by (simp add: run_defs)

subsection \<open>The cache and its deadline\<close>

text \<open>
  The \<open>validForNanos\<close> of line 60 read as an integer: for a positive period and an
  effective now that is not negative it is the time left until the next multiple of
  the period, between 1 and the period.
\<close>

lemma validForNanos_to_next_boundary:
  assumes "0 < sint q" "0 \<le> sint c"
  shows "sint ((quantizedAt q c + q) - c) = sint q - sint c mod sint q"
proof -
  have smod: "sint c smod sint q = sint c mod sint q"
    using assms by (cases "sint c = 0") (simp_all add: signed_modulo_int_def)
  have "0 \<le> sint c mod sint q \<and> sint c mod sint q < sint q"
    using assms by simp
  then have "- (2 ^ 63) \<le> sint q - sint (int64_rem c q) \<and> sint q - sint (int64_rem c q) < 2 ^ 63"
    using sint_int64_range [of q] by (simp add: sint_int64_rem smod)
  then have "sint (q - int64_rem c q) = sint q - sint (int64_rem c q)"
    by (simp add: sint_sub_64)
  moreover have "(quantizedAt q c + q) - c = q - int64_rem c q"
    using assms by (simp add: quantizedAt_def word_sless_alt)
  ultimately have "sint ((quantizedAt q c + q) - c) = sint q - sint (int64_rem c q)"
    by (simp only:)
  then show ?thesis by (simp only: sint_int64_rem smod)
qed

text \<open>
  Claim C3: when the local time is before the cached \<open>revisionValidThrough\<close>,
  \<open>OptimizedRevision\<close> returns the cached \<open>lastQuantizedRevision\<close> with no error,
  leaves the controller as it was and does not call the backend clock: the backend
  state is the one it was given, whatever \<open>NowFunc\<close> is.
\<close>

theorem OptimizedRevision_cache_hit:
  assumes "Before localNow (revisionValidThrough rcr)"
  shows "fst (OptimizedRevision rcr localNow b) = (lastQuantizedRevision rcr, None)
         \<and> fst (snd (OptimizedRevision rcr localNow b)) = rcr
         \<and> snd (snd (OptimizedRevision rcr localNow b)) = b"
  using assms by (simp add: OptimizedRevision_def)

theorem OptimizedRevision_cache_hit_witness:
  "Before 50000049
     (revisionValidThrough
        (fst (snd (OptimizedRevision (newController 1000 0 100 50000000 (countingClock 10050)) 0 0))))
   \<and> fst (OptimizedRevision
            (fst (snd (OptimizedRevision (newController 1000 0 100 50000000 (countingClock 10050)) 0 0)))
            50000049 1) = (Decimal 9000, None)
   \<and> snd (snd (OptimizedRevision
            (fst (snd (OptimizedRevision (newController 1000 0 100 50000000 (countingClock 10050)) 0 0)))
            50000049 1)) = 1"
proof -
  let ?rcr1 = "fst (snd (OptimizedRevision (newController 1000 0 100 50000000 (countingClock 10050)) 0 0))"
  have valid: "Before 50000049 (revisionValidThrough ?rcr1)"
    by (simp add: OptimizedRevision_example_9000 Before_def)
  have cached: "lastQuantizedRevision ?rcr1 = Decimal 9000"
    by (simp add: OptimizedRevision_example_9000)
  show ?thesis
    using valid cached OptimizedRevision_cache_hit [OF valid, of 1] by simp
qed

text \<open>
  Claim C4: after a cache miss whose clock fetch succeeds, the call succeeds, the
  revision returned is the one cached, and the new \<open>revisionValidThrough\<close> is
  \<open>localNow + validForNanos + MaxRevisionStaleness\<close> with
  \<open>validForNanos = (quantized + QuantizationNanos) - effectiveNow\<close> in \<open>int64\<close>
  arithmetic, where \<open>quantized\<close> is the revision being cached and \<open>effectiveNow\<close> the
  clock reading minus the follower-read delay.
\<close>

theorem OptimizedRevision_valid_through:
  assumes "\<not> Before localNow (revisionValidThrough rcr)"
    and "NowFunc rcr b = (Inr nowHLC, b')"
    and "OptimizedRevision rcr localNow b = ((quantized, err), rcr', b'')"
  shows "err = None
         \<and> lastQuantizedRevision rcr' = quantized
         \<and> revisionValidThrough rcr' =
             localNow
             + sint ((IntPart quantized + QuantizationNanos rcr)
                     - (IntPart nowHLC - FollowerReadDelayNanos rcr))
             + sint (MaxRevisionStaleness rcr)"
  using assms by (auto simp add: OptimizedRevision_miss IntPart_NewFromInt)

theorem OptimizedRevision_valid_through_witness:
  "\<not> Before 0 (revisionValidThrough (newController 1000 0 100 50000000 (countingClock 10050)))
   \<and> revisionValidThrough
        (fst (snd (OptimizedRevision (newController 1000 0 100 50000000 (countingClock 10050)) 0 0)))
      = 0 + ((9000 + 1000) - (10050 - 100)) + 50000000"
proof -
  let ?rcr = "newController 1000 0 100 50000000 (countingClock 10050)"
  have miss: "\<not> Before 0 (revisionValidThrough ?rcr)"
    by (simp add: newController_def Before_def)
  have clock: "NowFunc ?rcr 0 = (Inr (Decimal 10050), 1)"
    by (simp add: newController_def countingClock_def)
  have call: "OptimizedRevision ?rcr 0 0 =
      ((Decimal 9000, None), fst (snd (OptimizedRevision ?rcr 0 0)), 1)"
    by (simp add: OptimizedRevision_example_9000)
  show ?thesis
    using miss OptimizedRevision_valid_through [OF miss clock call]
    by (simp add: newController_def)
qed

text \<open>
  Claim C9: when the clock fetch fails on a cache miss, \<open>OptimizedRevision\<close> returns
  \<open>NoRevision\<close> with the error of the fetch, and the controller after the call is the
  controller before it: \<open>lastQuantizedRevision\<close> and \<open>revisionValidThrough\<close> are
  unchanged.
\<close>

theorem OptimizedRevision_clock_failure:
  assumes "\<not> Before localNow (revisionValidThrough rcr)"
    and "NowFunc rcr b = (Inl err, b')"
  shows "fst (OptimizedRevision rcr localNow b) = (NoRevision, Some err)
         \<and> fst (snd (OptimizedRevision rcr localNow b)) = rcr"
  using assms by (simp add: OptimizedRevision_def)

theorem OptimizedRevision_clock_failure_witness:
  "\<not> Before 60 (revisionValidThrough
        (fst (snd (OptimizedRevision (newController 1000 0 100 0 (failingClock (OtherError ''down''))) 60 0))))
   \<and> OptimizedRevision (newController 1000 0 100 0 (failingClock (OtherError ''down''))) 60 0
      = ((NoRevision, Some (OtherError ''down'')),
         newController 1000 0 100 0 (failingClock (OtherError ''down'')), 1)"
proof -
  let ?rcr = "newController 1000 0 100 0 (failingClock (OtherError ''down''))"
  have miss: "\<not> Before 60 (revisionValidThrough ?rcr)"
    by (simp add: newController_def Before_def)
  have clock: "NowFunc ?rcr 0 = (Inl (OtherError ''down''), 1)"
    by (simp add: newController_def failingClock_def)
  have world: "snd (snd (OptimizedRevision ?rcr 60 0)) = 1"
    by (simp add: run_defs)
  show ?thesis
    using miss world OptimizedRevision_clock_failure [OF miss clock]
    by (simp add: prod_eq_iff)
qed

text \<open>
  Claim C10: \<open>CheckRevision\<close> never modifies the controller: for every revision and
  every outcome, the controller after the call is the controller before it, so
  \<open>lastQuantizedRevision\<close> and \<open>revisionValidThrough\<close> are unchanged.
\<close>

theorem CheckRevision_keeps_controller:
  "fst (snd (CheckRevision rcr revision b)) = rcr
   \<and> lastQuantizedRevision (fst (snd (CheckRevision rcr revision b))) = lastQuantizedRevision rcr
   \<and> revisionValidThrough (fst (snd (CheckRevision rcr revision b))) = revisionValidThrough rcr"
proof -
  have "fst (snd (CheckRevision rcr revision b)) = rcr"
    by (simp add: CheckRevision_def Let_def split: prod.split sum.split)
  then show ?thesis by simp
qed

subsection \<open>Monotonicity\<close>

text \<open>
  Quantization does not go back when the clock does not: the effective now and the
  quantized value are monotone in the clock reading, for a follower delay and a clock
  reading that are not negative. \<open>cacheNotAhead\<close> holds for a new controller once the
  clock has passed the follower delay, and every successful call keeps it.
\<close>

lemma quantizedAt_nonneg: "0 \<le> sint c \<Longrightarrow> 0 \<le> sint (quantizedAt q c)"
  using smod_int_nonneg [of "sint c" "sint q"] by (simp add: sint_quantizedAt)

lemma effectiveNow_mono:
  assumes "0 \<le> sint (d::int64)" "0 \<le> sint (t::int64)" "sint t \<le> sint (t'::int64)"
  shows "sint (t - d) \<le> sint (t' - d)"
proof -
  have "sint (t - d) = sint t - sint d"
    using assms sint_int64_range [of t] sint_int64_range [of d] by (intro sint_sub_64) auto
  moreover have "sint (t' - d) = sint t' - sint d"
    using assms sint_int64_range [of t'] sint_int64_range [of d] by (intro sint_sub_64) auto
  ultimately show ?thesis using assms by simp
qed

lemma OptimizedRevision_config:
  assumes "OptimizedRevision rcr localNow b = (res, rcr', b')"
  shows "QuantizationNanos rcr' = QuantizationNanos rcr
         \<and> FollowerReadDelayNanos rcr' = FollowerReadDelayNanos rcr
         \<and> NowFunc rcr' = NowFunc rcr"
  using assms
  by (auto simp add: OptimizedRevision_def Let_def split: if_splits prod.splits sum.splits)

lemma OptimizedRevision_result_bound:
  assumes call: "OptimizedRevision rcr localNow b = ((revision, None), rcr', b')"
    and clock: "NowFunc rcr b = (Inr now, c)"
    and cached: "Before localNow (revisionValidThrough rcr) \<longrightarrow> cacheNotAhead rcr now"
  shows "nanosOf revision
           \<le> sint (quantizedAt (QuantizationNanos rcr) (IntPart now - FollowerReadDelayNanos rcr))
         \<and> lastQuantizedRevision rcr' = revision"
proof (cases "Before localNow (revisionValidThrough rcr)")
  case True
  then show ?thesis using call cached
    by (auto simp add: OptimizedRevision_hit cacheNotAhead_def)
next
  case False
  then show ?thesis using call clock
    by (auto simp add: OptimizedRevision_miss nanosOf_NewFromInt)
qed

lemma cacheNotAhead_new:
  "sint (FollowerReadDelayNanos (newController q gc d st f)) \<le> sint (IntPart now) \<Longrightarrow> 
   0 \<le> sint (FollowerReadDelayNanos (newController q gc d st f)) \<Longrightarrow>
   cacheNotAhead (newController q gc d st f) now"
proof -
  assume a: "sint (FollowerReadDelayNanos (newController q gc d st f)) \<le> sint (IntPart now)"
    "0 \<le> sint (FollowerReadDelayNanos (newController q gc d st f))"
  have "sint (IntPart now - d) = sint (IntPart now) - sint d"
    using a sint_int64_range [of "IntPart now"] sint_int64_range [of d]
    by (intro sint_sub_64) (auto simp add: newController_def)
  then have "0 \<le> sint (IntPart now - d)" using a by (simp add: newController_def)
  then show ?thesis
    using quantizedAt_nonneg [of "IntPart now - d" q]
    by (simp add: cacheNotAhead_def newController_def)
qed

lemma cacheNotAhead_preserved:
  assumes call: "OptimizedRevision rcr localNow b = ((revision, None), rcr', b')"
    and clock: "NowFunc rcr b = (Inr now, c)"
    and cached: "Before localNow (revisionValidThrough rcr) \<longrightarrow> cacheNotAhead rcr now"
    and mono: "sint (IntPart now) \<le> sint (IntPart now')"
    and delay: "0 \<le> sint (FollowerReadDelayNanos rcr)"
    and nonneg: "0 \<le> sint (IntPart now)"
  shows "cacheNotAhead rcr' now'"
proof -
  have "nanosOf (lastQuantizedRevision rcr')
          \<le> sint (quantizedAt (QuantizationNanos rcr) (IntPart now - FollowerReadDelayNanos rcr))"
    using OptimizedRevision_result_bound [OF call clock cached] by simp
  also have "\<dots> \<le> sint (quantizedAt (QuantizationNanos rcr) (IntPart now' - FollowerReadDelayNanos rcr))"
    by (intro quantizedAt_mono effectiveNow_mono delay nonneg mono)
  finally show ?thesis
    using OptimizedRevision_config [OF call] by (simp add: cacheNotAhead_def)
qed




section \<open>Properties of the revisioned reader\<close>

lemma errors_As_NewNamespaceNotFoundErr:
  "errors_As_ErrNamespaceNotFound (Some (NewNamespaceNotFoundErr nsName))"
  by (simp add: NewNamespaceNotFoundErr_def)

text \<open>
  Claim C5: when the transaction is acquired, the query is rendered and the single-row
  query finds no row (the scan returns \<open>sql.ErrNoRows\<close>), \<open>ReadNamespaceByName\<close>
  returns a \<open>nil\<close> definition, \<open>NoRevision\<close> and the \<open>NamespaceNotFound\<close> error for that
  name as it is, with no wrapping; any other error of the scan comes back wrapped with
  the context of the operation.
\<close>

theorem ReadNamespaceByName_not_found:
  assumes tx: "txSource mr w = (Inr (tx, txCleanup), w1)"
    and sql: "ToSql ext (Where (filterer mr (ReadNamespaceQuery mr)) (Eq colNamespace nsName))
                = Inr (query, args)"
  shows "(QueryRowContext_Scan tx query args w1 = (Inl err, w2) \<and> errors_Is_ErrNoRows err \<longrightarrow>
            fst (ReadNamespaceByName ext mr nsName w)
              = (None, datastore_NoRevision, Some (ErrNamespaceNotFound nsName)))
         \<and> (QueryRowContext_Scan tx query args w1 = (Inl err, w2) \<and> \<not> errors_Is_ErrNoRows err
              \<and> \<not> errors_As_ErrNamespaceNotFound (Some err) \<longrightarrow>
            fst (ReadNamespaceByName ext mr nsName w)
              = (None, datastore_NoRevision, Some (Errorf errUnableToReadConfig err)))"
  using tx sql
  by (auto simp add: ReadNamespaceByName_def loadNamespace_def NewNamespaceNotFoundErr_def)

theorem ReadNamespaceByName_not_found_witness:
  "fst (ReadNamespaceByName stubExternals (stubReader (stubTx (Inl ErrNoRows) (Inl ErrNoRows)))
          ''missing'' 0)
     = (None, datastore_NoRevision, Some (ErrNamespaceNotFound ''missing''))
   \<and> fst (ReadNamespaceByName stubExternals
            (stubReader (stubTx (Inl (OtherError ''connection lost'')) (Inl ErrNoRows)))
            ''missing'' 0)
     = (None, datastore_NoRevision,
        Some (Errorf errUnableToReadConfig (OtherError ''connection lost'')))"
proof -
  let ?none = "stubTx (Inl ErrNoRows) (Inl ErrNoRows)"
  let ?lost = "stubTx (Inl (OtherError ''connection lost'')) (Inl ErrNoRows)"
  have tx: "txSource (stubReader t) 0 = (Inr (t, stubCleanup), 1)" for t
    by (simp add: stubReader_def)
  have sql: "ToSql stubExternals
      (Where (filterer (stubReader t) (ReadNamespaceQuery (stubReader t))) (Eq colNamespace ''missing''))
      = Inr (''SELECT'', [])" for t
    by (simp add: stubExternals_def)
  have none: "QueryRowContext_Scan ?none ''SELECT'' [] 1 = (Inl ErrNoRows, 2)
      \<and> errors_Is_ErrNoRows ErrNoRows"
    by (simp add: stubTx_def)
  have lost: "QueryRowContext_Scan ?lost ''SELECT'' [] 1 = (Inl (OtherError ''connection lost''), 2)
      \<and> \<not> errors_Is_ErrNoRows (OtherError ''connection lost'')
      \<and> \<not> errors_As_ErrNamespaceNotFound (Some (OtherError ''connection lost''))"
    by (simp add: stubTx_def)
  show ?thesis
    using ReadNamespaceByName_not_found [OF tx sql, of ?none ErrNoRows 2, THEN conjunct1] none
      ReadNamespaceByName_not_found [OF tx sql, of ?lost "OtherError ''connection lost''" 2, THEN conjunct2] lost
    by simp
qed

text \<open>
  Every error that \<open>ReadNamespaceByName\<close> returns is a \<open>NamespaceNotFound\<close> error or
  is wrapped with the context of the operation.
\<close>

lemma ReadNamespaceByName_errors:
  assumes "snd (snd (fst (ReadNamespaceByName ext mr nsName w))) = Some e"
  shows "errors_As_ErrNamespaceNotFound (Some e) \<or> (\<exists>e'. e = Errorf errUnableToReadConfig e')"
  using assms
  by (auto simp add: ReadNamespaceByName_def split: prod.splits sum.splits option.splits if_splits)

text \<open>The loop of lines 164 to 167 appends one equality predicate for each name.\<close>

lemma lookup_clause:
  "foldl (\<lambda>clause nsName. clause @ [Eq colNamespace nsName]) acc nsNames
     = acc @ map (Eq colNamespace) nsNames"
  by (induction nsNames arbitrary: acc) simp_all

text \<open>
  Claim C6: with an empty list of names \<open>LookupNamespacesWithNames\<close> returns an empty
  result and a \<open>nil\<close> error and makes no backend call: the backend state is the one it
  was given, so no transaction is acquired and no query is run. With a non-empty list
  it loads the namespaces of the query filtered by the disjunction of one equality
  predicate on the namespace column for each name, in the order of the names.
\<close>

theorem LookupNamespacesWithNames_short_circuit:
  "LookupNamespacesWithNames ext mr [] w = (([], None), w)
   \<and> (nsNames \<noteq> [] \<and> txSource mr w = (Inr (tx, txCleanup), w1) \<longrightarrow>
        LookupNamespacesWithNames ext mr nsNames w =
          (case loadAllNamespaces ext tx
                  (filterer mr (Where (ReadNamespaceQuery mr) (Or (map (Eq colNamespace) nsNames)))) w1 of
             ((nsDefs, err), w2) \<Rightarrow>
               ((case err of
                   Some e \<Rightarrow> ([], Some (Errorf errUnableToListNamespaces e))
                 | None \<Rightarrow> (nsDefs, None)),
                LogOnError txCleanup w2)))"
  by (auto simp add: LookupNamespacesWithNames_def lookup_clause split: prod.splits option.splits)


theorem LookupNamespacesWithNames_short_circuit_witness:
  "LookupNamespacesWithNames stubExternals
     (stubReader (stubTx (Inl ErrNoRows) (Inr (stubRows [Inr ([1], 7), Inr ([2], 8)] None)))) [] 0
     = (([], None), 0)
   \<and> LookupNamespacesWithNames stubExternals
       (stubReader (stubTx (Inl ErrNoRows) (Inr (stubRows [Inr ([1], 7), Inr ([2], 8)] None))))
       [''document'', ''user''] 0
     = (([\<lparr>Definition = [1], LastWrittenRevision = TransactionIDRevision 7\<rparr>,
          \<lparr>Definition = [2], LastWrittenRevision = TransactionIDRevision 8\<rparr>], None), 4)"
proof -
  let ?tx = "stubTx (Inl ErrNoRows) (Inr (stubRows [Inr ([1], 7), Inr ([2], 8)] None))"
  let ?mr = "stubReader ?tx"
  have names: "[''document'', ''user''] \<noteq> []"
    by simp
  have tx: "txSource ?mr 0 = (Inr (?tx, stubCleanup), 1)"
    by (simp add: stubReader_def)
  have load: "loadAllNamespaces stubExternals ?tx
      (filterer ?mr (Where (ReadNamespaceQuery ?mr)
         (Or [Eq colNamespace ''document'', Eq colNamespace ''user'']))) (Suc 0)
      = (([\<lparr>Definition = [1], LastWrittenRevision = TransactionIDRevision 7\<rparr>,
           \<lparr>Definition = [2], LastWrittenRevision = TransactionIDRevision 8\<rparr>], None), 3)"
    by (simp add: loadAllNamespaces_def stubExternals_def stubTx_def stubRows_def
        LogOnError_def NewForTransactionID_def)
  show ?thesis
    using LookupNamespacesWithNames_short_circuit [of stubExternals ?mr 0 "[''document'', ''user'']"
        ?tx stubCleanup 1, THEN conjunct1]
      LookupNamespacesWithNames_short_circuit [of stubExternals ?mr 0 "[''document'', ''user'']"
        ?tx stubCleanup 1, THEN conjunct2, rule_format, OF conjI [OF names tx]]
    by (simp add: load LogOnError_def stubCleanup_def)
qed

text \<open>
  The loop of \<open>loadAllNamespaces\<close> passes the rows that scan and decode and appends
  their namespaces; every list of rows is such a run of rows, alone or followed by a
  first row whose scan or whose decoding fails. Whenever \<open>loadAllNamespaces\<close> or
  \<open>ListAllNamespaces\<close> returns an error, it returns no namespace.
\<close>

lemma loadAllNamespaces_loop_decoded:
  "list_all2 (decodesTo ext) good nsDefs \<Longrightarrow>
   loadAllNamespaces_loop ext (map Inr good @ rest) acc
     = loadAllNamespaces_loop ext rest (acc @ nsDefs)"
proof (induction good nsDefs arbitrary: acc rule: list_all2_induct)
  case Nil
  then show ?case by simp
next
  case (Cons row good ns nsDefs)
  obtain config txID where row: "row = (config, txID)"
    by (cases row)
  have decoded: "UnmarshalVT ext config = Inr (Definition ns)"
    and revision: "LastWrittenRevision ns = NewForTransactionID txID"
    using Cons.hyps(1) by (simp_all add: decodesTo_def row)
  have built: "\<lparr>Definition = Definition ns, LastWrittenRevision = NewForTransactionID txID\<rparr> = ns"
    using revision [symmetric] by simp
  show ?case
    using Cons.IH [of "acc @ [ns]"] by (simp add: row decoded built)
qed

lemma rows_decompose:
  "\<exists>good nsDefs. list_all2 (decodesTo ext) good nsDefs
     \<and> (scans = map Inr good
          \<or> (\<exists>e rest. scans = map Inr good @ Inl e # rest)
          \<or> (\<exists>config txID e rest. scans = map Inr good @ Inr (config, txID) # rest
                \<and> UnmarshalVT ext config = Inl e))"
  (is "\<exists>good nsDefs. ?P scans good nsDefs")
proof (induction scans)
  case Nil
  have "?P [] [] []" by simp
  then show ?case by (intro exI)
next
  case (Cons scanned scans)
  show ?case
  proof (cases scanned)
    case (Inl e)
    have "?P (scanned # scans) [] []" using Inl by simp
    then show ?thesis by (intro exI)
  next
    case (Inr row)
    obtain config txID where row: "row = (config, txID)" by (cases row)
    show ?thesis
    proof (cases "UnmarshalVT ext config")
      case (Inl e)
      have "?P (scanned # scans) [] []" using Inl Inr row by simp
      then show ?thesis by (intro exI)
    next
      case loaded: (Inr loaded)
      let ?ns = "\<lparr>Definition = loaded, LastWrittenRevision = NewForTransactionID txID\<rparr>"
      from Cons.IH obtain good nsDefs where ih: "?P scans good nsDefs"
        by (elim exE)
      have head: "decodesTo ext row ?ns"
        using loaded row by (simp add: decodesTo_def)
      have "?P (scanned # scans) (row # good) (?ns # nsDefs)"
        using ih head Inr by auto
      then show ?thesis by (intro exI)
    qed
  qed
qed


lemma loadAllNamespaces_discards:
  "snd (fst (loadAllNamespaces ext tx queryBuilder w)) = None
   \<or> fst (fst (loadAllNamespaces ext tx queryBuilder w)) = []"
  by (simp add: loadAllNamespaces_def split: sum.split prod.split option.split)

lemma ListAllNamespaces_discards:
  "snd (fst (ListAllNamespaces ext mr w)) = None \<or> fst (fst (ListAllNamespaces ext mr w)) = []"
  by (simp add: ListAllNamespaces_def Let_def split: sum.split prod.split option.split)

lemma ListAllNamespaces_rows:
  assumes tx: "txSource mr w = (Inr (tx, txCleanup), w1)"
    and sql: "ToSql ext (filterer mr (ReadNamespaceQuery mr)) = Inr (query, args)"
    and rows: "QueryContext tx query args w1 = (Inr rows, w2)"
  shows "fst (ListAllNamespaces ext mr w) =
          (case loadAllNamespaces_loop ext (Rows_Scan rows) [] of
             Inl err \<Rightarrow> ([], Some (Errorf errUnableToListNamespaces err))
           | Inr nsDefs \<Rightarrow>
               (case Rows_Err rows of
                  Some err \<Rightarrow> ([], Some (Errorf errUnableToListNamespaces err))
                | None \<Rightarrow> (nsDefs, None)))"
  using tx sql rows
  by (simp add: ListAllNamespaces_def loadAllNamespaces_def Let_def split: sum.split option.split)

text \<open>
  Claim C7: \<open>ListAllNamespaces\<close> is all-or-nothing. \<open>good\<close> are the rows that scan and
  decode, to the namespaces \<open>nsDefs\<close>, one for each row with the revision made from the
  transaction identifier of the row. When a scan fails after them, or a payload does
  not decode, or the iteration ends with an error, the result is no namespace and that
  error wrapped with the context of the listing (the decode error inside its own
  context); when every row is good and the iteration ends without error, the result is
  \<open>nsDefs\<close> and no error.
\<close>

theorem ListAllNamespaces_all_or_nothing:
  assumes tx: "txSource mr w = (Inr (tx, txCleanup), w1)"
    and sql: "ToSql ext (filterer mr (ReadNamespaceQuery mr)) = Inr (query, args)"
    and rows: "QueryContext tx query args w1 = (Inr rows, w2)"
    and good: "list_all2 (decodesTo ext) good nsDefs"
  shows "(Rows_Scan rows = map Inr good @ Inl e # rest \<longrightarrow>
            fst (ListAllNamespaces ext mr w) = ([], Some (Errorf errUnableToListNamespaces e)))
         \<and> (Rows_Scan rows = map Inr good @ Inr (config, txID) # rest
              \<and> UnmarshalVT ext config = Inl e \<longrightarrow>
            fst (ListAllNamespaces ext mr w)
              = ([], Some (Errorf errUnableToListNamespaces (Errorf errUnableToReadConfig e))))
         \<and> (Rows_Scan rows = map Inr good \<and> Rows_Err rows = Some e \<longrightarrow>
            fst (ListAllNamespaces ext mr w) = ([], Some (Errorf errUnableToListNamespaces e)))
         \<and> (Rows_Scan rows = map Inr good \<and> Rows_Err rows = None \<longrightarrow>
            fst (ListAllNamespaces ext mr w) = (nsDefs, None))"
proof -
  have all: "loadAllNamespaces_loop ext (map Inr good) [] = Inr nsDefs"
    using loadAllNamespaces_loop_decoded [OF good, of "[]" "[]"] by simp
  have scan: "loadAllNamespaces_loop ext (map Inr good @ Inl e # rest) [] = Inl e"
    using loadAllNamespaces_loop_decoded [OF good, of "Inl e # rest" "[]"] by simp
  have decode: "loadAllNamespaces_loop ext (map Inr good @ Inr (config, txID) # rest) []
      = Inl (Errorf errUnableToReadConfig e)" if "UnmarshalVT ext config = Inl e"
    using loadAllNamespaces_loop_decoded [OF good, of "Inr (config, txID) # rest" "[]"] that
    by simp
  show ?thesis
    using ListAllNamespaces_rows [OF tx sql rows]
    by (auto simp add: all scan decode)
qed

theorem ListAllNamespaces_all_or_nothing_witness:
  "fst (ListAllNamespaces stubExternals
          (stubReader (stubTx (Inl ErrNoRows) (Inr (stubRows [Inr ([1], 7), Inr ([2], 8)] None)))) 0)
     = ([\<lparr>Definition = [1], LastWrittenRevision = TransactionIDRevision 7\<rparr>,
         \<lparr>Definition = [2], LastWrittenRevision = TransactionIDRevision 8\<rparr>], None)
   \<and> fst (ListAllNamespaces stubExternals
          (stubReader (stubTx (Inl ErrNoRows)
             (Inr (stubRows [Inr ([1], 7), Inr ([2], 8), Inr ([], 9), Inr ([4], 10)] None)))) 0)
     = ([], Some (Errorf errUnableToListNamespaces
                    (Errorf errUnableToReadConfig (OtherError ''malformed''))))
   \<and> fst (ListAllNamespaces stubExternals
          (stubReader (stubTx (Inl ErrNoRows)
             (Inr (stubRows [Inr ([1], 7), Inr ([2], 8), Inl (OtherError ''scan'')] None)))) 0)
     = ([], Some (Errorf errUnableToListNamespaces (OtherError ''scan'')))
   \<and> fst (ListAllNamespaces stubExternals
          (stubReader (stubTx (Inl ErrNoRows)
             (Inr (stubRows [Inr ([1], 7), Inr ([2], 8)] (Some (OtherError ''reset'')))))) 0)
     = ([], Some (Errorf errUnableToListNamespaces (OtherError ''reset'')))"
proof -
  let ?good = "[([1], 7), ([2], 8)] :: (bytes \<times> uint64) list"
  let ?nsDefs = "[\<lparr>Definition = [1], LastWrittenRevision = TransactionIDRevision 7\<rparr>,
                  \<lparr>Definition = [2], LastWrittenRevision = TransactionIDRevision 8\<rparr>]
                 :: bytes RevisionedNamespace list"
  have tx: "txSource (stubReader (stubTx (Inl ErrNoRows) (Inr rows))) 0
      = (Inr (stubTx (Inl ErrNoRows) (Inr rows), stubCleanup), 1)" for rows
    by (simp add: stubReader_def)
  have sql: "ToSql stubExternals (filterer (stubReader t) (ReadNamespaceQuery (stubReader t)))
      = Inr (''SELECT'', [])" for t
    by (simp add: stubExternals_def)
  have rows: "QueryContext (stubTx (Inl ErrNoRows) (Inr rows)) ''SELECT'' [] 1 = (Inr rows, 2)"
    for rows
    by (simp add: stubTx_def)
  have good: "list_all2 (decodesTo stubExternals) ?good ?nsDefs"
    by (simp add: decodesTo_def stubExternals_def NewForTransactionID_def)
  note run = ListAllNamespaces_all_or_nothing [OF tx sql rows good]
  have "fst (ListAllNamespaces stubExternals
          (stubReader (stubTx (Inl ErrNoRows) (Inr (stubRows [Inr ([1], 7), Inr ([2], 8)] None)))) 0)
     = (?nsDefs, None)"
    using run [where rows = "stubRows [Inr ([1], 7), Inr ([2], 8)] None"]
    by (simp add: stubRows_def)
  moreover have "fst (ListAllNamespaces stubExternals
          (stubReader (stubTx (Inl ErrNoRows)
             (Inr (stubRows [Inr ([1], 7), Inr ([2], 8), Inr ([], 9), Inr ([4], 10)] None)))) 0)
     = ([], Some (Errorf errUnableToListNamespaces
                    (Errorf errUnableToReadConfig (OtherError ''malformed''))))"
    using run [where rows = "stubRows [Inr ([1], 7), Inr ([2], 8), Inr ([], 9), Inr ([4], 10)] None"
        and config = "[]" and txID = 9 and rest = "[Inr ([4], 10)]"
        and e = "OtherError ''malformed''"]
    by (simp add: stubRows_def stubExternals_def)
  moreover have "fst (ListAllNamespaces stubExternals
          (stubReader (stubTx (Inl ErrNoRows)
             (Inr (stubRows [Inr ([1], 7), Inr ([2], 8), Inl (OtherError ''scan'')] None)))) 0)
     = ([], Some (Errorf errUnableToListNamespaces (OtherError ''scan'')))"
    using run [where rows = "stubRows [Inr ([1], 7), Inr ([2], 8), Inl (OtherError ''scan'')] None"
        and rest = "[]" and e = "OtherError ''scan''"]
    by (simp add: stubRows_def)
  moreover have "fst (ListAllNamespaces stubExternals
          (stubReader (stubTx (Inl ErrNoRows)
             (Inr (stubRows [Inr ([1], 7), Inr ([2], 8)] (Some (OtherError ''reset'')))))) 0)
     = ([], Some (Errorf errUnableToListNamespaces (OtherError ''reset'')))"
    using run [where rows = "stubRows [Inr ([1], 7), Inr ([2], 8)] (Some (OtherError ''reset''))"
        and e = "OtherError ''reset''"]
    by (simp add: stubRows_def)
  ultimately show ?thesis by simp
qed

end
